theory Spec2Isabelle
  imports Main "HOL-Library.Word" "HOL-Library.AList"
begin

unbundle bit_operations_syntax

section \<open>LZW filter (filters/lzw.py)\<close>

subsection \<open>Constants, errors and bytes\<close>

type_synonym byte = "8 word"

text \<open>The Python exceptions that the modelled code can raise.\<close>

datatype error = ValueError | TypeError | IndexError | KeyError

definition CLEAR_CODE :: int where
  "CLEAR_CODE = 256"

definition END_OF_INFO_CODE :: int where
  "END_OF_INFO_CODE = 257"

definition DEFAULT_MIN_BITS :: nat where
  "DEFAULT_MIN_BITS = 9"

text \<open>\<open>DEFAULT_MAX_BITS\<close> is declared by the module and read by none of its functions.\<close>

definition DEFAULT_MAX_BITS :: nat where
  "DEFAULT_MAX_BITS = 12"

subsection \<open>Conveniences: \<open>bytestobits\<close> and \<open>intfrombits\<close>\<close>

text \<open>
  \<open>bytestobits\<close> walks \<open>bitplusone\<close> over \<open>range(8, 0, -1)\<close> and yields
  \<open>1 & (value >> bitindex)\<close>; the bit is kept as a truth value, which is all that
  \<open>intfrombits\<close> reads of it.
\<close>

definition bits_of_byte :: "byte \<Rightarrow> bool list" where
  "bits_of_byte v =
     map (\<lambda>bitplusone. (1 AND drop_bit (bitplusone - 1) v) = 1) (rev [1..<9])"

definition bytestobits :: "byte list \<Rightarrow> bool list" where
  "bytestobits bytesource = concat (map bits_of_byte bytesource)"

definition intfrombits :: "bool list \<Rightarrow> int" where
  "intfrombits bs =
     (let lsb_first = rev bs
      in fold (\<lambda>bit_index ret. if lsb_first ! bit_index then ret OR push_bit bit_index 1 else ret)
           [0..<length lsb_first] 0)"

subsection \<open>BitUnpacker\<close>

text \<open>The two \<open>while\<close> loops of \<open>unpack\<close> that search for a code width.\<close>

function minwidth_loop :: "nat \<Rightarrow> nat \<Rightarrow> nat" where
  "minwidth_loop codesize minwidth =
     (if push_bit minwidth (1::nat) < codesize then minwidth_loop codesize (minwidth + 1)
      else minwidth)"
  by pat_completeness auto
termination
proof (relation "measure (\<lambda>(codesize, minwidth). codesize - minwidth)")
  show "wf (measure (\<lambda>(codesize, minwidth). codesize - minwidth))"
    by simp
next
  fix codesize minwidth :: nat
  assume "push_bit minwidth (1::nat) < codesize"
  then have "2 ^ minwidth < codesize"
    by (simp add: push_bit_eq_mult)
  then have "minwidth < codesize"
    by (rule less_trans [OF less_exp])
  then show "((codesize, minwidth + 1), (codesize, minwidth))
      \<in> measure (\<lambda>(codesize, minwidth). codesize - minwidth)"
    by simp
qed

declare minwidth_loop.simps [simp del]

function grow_width :: "nat \<Rightarrow> nat \<Rightarrow> nat" where
  "grow_width codesize pointwidth =
     (if codesize \<ge> 2 ^ pointwidth then grow_width codesize (pointwidth + 1)
      else pointwidth)"
  by pat_completeness auto
termination
proof (relation "measure (\<lambda>(codesize, pointwidth). Suc codesize - pointwidth)")
  show "wf (measure (\<lambda>(codesize, pointwidth). Suc codesize - pointwidth))"
    by simp
next
  fix codesize pointwidth :: nat
  assume "2 ^ pointwidth \<le> codesize"
  then have "pointwidth < codesize"
    by (rule less_le_trans [OF less_exp])
  then show "((codesize, pointwidth + 1), (codesize, pointwidth))
      \<in> measure (\<lambda>(codesize, pointwidth). Suc codesize - pointwidth)"
    by simp
qed

declare grow_width.simps [simp del]

text \<open>The local variables of \<open>unpack\<close> that change from bit to bit.\<close>

record unpacker =
  bits :: "bool list"
  offset :: nat
  ignore :: nat
  codesize :: nat
  pointwidth :: nat

text \<open>
  One pass through the body of the \<open>for nextbit\<close> loop. The result holds the locals
  after the pass and, when the pass reached \<open>yield codepoint\<close>, the codepoint together
  with the value \<open>pointwidth\<close> had at the \<open>yield\<close>.
\<close>

definition unpack_bit ::
  "nat \<Rightarrow> nat \<Rightarrow> unpacker \<Rightarrow> bool \<Rightarrow> unpacker \<times> (int \<times> nat) option" where
  "unpack_bit initial_code_size minwidth u nextbit =
     (let u1 = u\<lparr>offset := (offset u + 1) mod 8\<rparr>
      in if ignore u1 > 0 then (u1\<lparr>ignore := ignore u1 - 1\<rparr>, None)
         else
           let u2 = u1\<lparr>bits := bits u1 @ [nextbit]\<rparr>
           in if length (bits u2) = pointwidth u2
              then
                let codepoint = intfrombits (bits u2);
                    u3 = u2\<lparr>bits := [], codesize := codesize u2 + 1\<rparr>;
                    u4 = (if codepoint \<in> set [CLEAR_CODE, END_OF_INFO_CODE]
                          then u3\<lparr>codesize := initial_code_size, pointwidth := minwidth\<rparr>
                          else u3\<lparr>pointwidth := grow_width (codesize u3) (pointwidth u3)\<rparr>);
                    u5 = (if codepoint = END_OF_INFO_CODE
                          then u4\<lparr>ignore := (8 - offset u4) mod 8\<rparr>
                          else u4)
                in (u5, Some (codepoint, pointwidth u2))
              else (u2, None))"

fun unpack_loop :: "nat \<Rightarrow> nat \<Rightarrow> unpacker \<Rightarrow> bool list \<Rightarrow> (int \<times> nat) list" where
  "unpack_loop initial_code_size minwidth u [] = []"
| "unpack_loop initial_code_size minwidth u (nextbit # rest) =
     (case unpack_bit initial_code_size minwidth u nextbit of
        (u', None) \<Rightarrow> unpack_loop initial_code_size minwidth u' rest
      | (u', Some ev) \<Rightarrow> ev # unpack_loop initial_code_size minwidth u' rest)"

text \<open>
  \<open>unpack_events\<close> is the generator of \<open>BitUnpacker.unpack\<close> with each yielded
  codepoint paired with the code width it was read at; \<open>unpack\<close> is the sequence of
  codepoints the generator yields.
\<close>

definition unpack_events :: "nat \<Rightarrow> byte list \<Rightarrow> (int \<times> nat) list" where
  "unpack_events initial_code_size bytesource =
     (let minwidth = minwidth_loop initial_code_size 8
      in unpack_loop initial_code_size minwidth
           \<lparr>bits = [], offset = 0, ignore = 0,
            codesize = initial_code_size, pointwidth = minwidth\<rparr>
           (bytestobits bytesource))"

definition unpack :: "nat \<Rightarrow> byte list \<Rightarrow> int list" where
  "unpack initial_code_size bytesource = map fst (unpack_events initial_code_size bytesource)"

subsection \<open>Decoder\<close>

text \<open>
  The codebook \<open>_codepoints\<close> is a dict from codepoints to byte strings, except that
  \<open>_clear_codes\<close> stores the two control codes under their own keys as integers. It is
  kept as an association list in insertion order; \<open>len\<close> is its length.
\<close>

datatype codeval = Bytes "byte list" | Code int

record decoder =
  codepoints :: "(int \<times> codeval) list"
  prefix :: "byte list option"

definition clear_codes :: "decoder \<Rightarrow> decoder" where
  "clear_codes d =
     d\<lparr>codepoints :=
          AList.update END_OF_INFO_CODE (Code END_OF_INFO_CODE)
            (AList.update CLEAR_CODE (Code CLEAR_CODE)
               (map (\<lambda>pt. (int pt, Bytes [of_nat pt])) [0..<256])),
        prefix := None\<rparr>"

definition new_Decoder :: decoder where
  "new_Decoder = clear_codes \<lparr>codepoints = [], prefix = None\<rparr>"

definition code_size :: "decoder \<Rightarrow> nat" where
  "code_size d = length (codepoints d)"

text \<open>
  \<open>_decode_codepoint\<close>. Adding \<open>None\<close> to a byte string is a \<open>TypeError\<close>. In the
  branch for an unknown codepoint \<open>ret\<close> still is the empty byte string when
  \<open>ret[0:1]\<close> is read. A codebook entry that is an integer can only be one of the two
  control entries, which the first two tests keep from being read; using one as a byte
  string would be a \<open>TypeError\<close> too.
\<close>

definition decode_codepoint :: "int \<Rightarrow> decoder \<Rightarrow> error + (byte list \<times> decoder)" where
  "decode_codepoint codepoint d =
     (if codepoint = CLEAR_CODE then Inr ([], clear_codes d)
      else if codepoint = END_OF_INFO_CODE then Inl ValueError
      else
        (case map_of (codepoints d) codepoint of
           Some (Bytes ret) \<Rightarrow>
             (case prefix d of
                None \<Rightarrow> Inr (ret, d\<lparr>prefix := Some ret\<rparr>)
              | Some p \<Rightarrow>
                  Inr (ret,
                    d\<lparr>codepoints :=
                         AList.update (int (length (codepoints d))) (Bytes (p @ take 1 ret))
                           (codepoints d),
                       prefix := Some ret\<rparr>))
         | Some (Code n) \<Rightarrow> Inl TypeError
         | None \<Rightarrow>
             (case prefix d of
                None \<Rightarrow> Inl TypeError
              | Some p \<Rightarrow>
                  (let ret = p @ take 1 []
                   in Inr (ret,
                        d\<lparr>codepoints :=
                             AList.update (int (length (codepoints d))) (Bytes ret)
                               (codepoints d),
                           prefix := Some ret\<rparr>)))))"

fun decode_loop :: "int list \<Rightarrow> byte list \<Rightarrow> decoder \<Rightarrow> error + (byte list \<times> decoder)" where
  "decode_loop [] decoded d = Inr (decoded, d)"
| "decode_loop (cp # cps) decoded d =
     (case decode_codepoint cp d of
        Inl e \<Rightarrow> Inl e
      | Inr (ret, d') \<Rightarrow> decode_loop cps (decoded @ ret) d')"

text \<open>\<open>Decoder.decode\<close>: the decoded bytes and the decoder as the call leaves it.\<close>

definition Decoder_decode :: "int list \<Rightarrow> decoder \<Rightarrow> error + (byte list \<times> decoder)" where
  "Decoder_decode cps d = decode_loop cps [] d"

subsection \<open>ByteDecoder, \<open>decompress\<close> and the filter entry point\<close>

definition decodefrombytes :: "byte list \<Rightarrow> error + byte list" where
  "decodefrombytes bytesource =
     (let d = new_Decoder;
          cps = unpack (code_size d) bytesource
      in map_sum id fst (Decoder_decode cps d))"

definition decompress :: "byte list \<Rightarrow> error + byte list" where
  "decompress compressed_bytes = decodefrombytes compressed_bytes"

text \<open>
  \<open>decode\<close>. The predictor step \<open>_remove_predictors\<close> lives in another module and is a
  parameter here. The second component of a normal result tells whether
  \<open>logging.exception\<close> was called.
\<close>

definition decode ::
  "(byte list \<Rightarrow> int option \<Rightarrow> int option \<Rightarrow> error + byte list) \<Rightarrow>
   byte list \<Rightarrow> (string \<rightharpoonup> int) \<Rightarrow> error + (byte list \<times> bool)" where
  "decode remove_predictors data params =
     (case decompress data of
        Inl e \<Rightarrow> (if e = ValueError then Inr ([], True) else Inl e)
      | Inr data1 \<Rightarrow>
          (case remove_predictors data1 (params ''Predictor'') (params ''Columns'') of
             Inl e \<Rightarrow> (if e = ValueError then Inr ([], True) else Inl e)
           | Inr data2 \<Rightarrow> Inr (data2, False)))"

section \<open>Text viewer (viewer/simple.py)\<close>

subsection \<open>Operand values\<close>

text \<open>
  The operand classes come from \<open>types.native\<close> and \<open>types.content\<close>. \<open>Str\<close> is a
  plain Python \<open>str\<close> (the text \<open>on_Tj\<close> and \<open>on_TJ\<close> put in place of a decoded
  string); \<open>Name\<close>, \<open>String\<close> and \<open>HexString\<close> are its subclasses. \<open>Decimal\<close>
  carries the text Python's \<open>str\<close> gives for the number. A dictionary keeps its items
  in insertion order. \<open>InlineImage\<close> carries its \<open>dictionary\<close> and its \<open>filtered\<close>
  bytes. \<open>Foreign\<close> stands for an object of any class the serializer does not test
  for.
\<close>

datatype obj =
    Null
  | Boolean bool
  | Name string
  | String string
  | HexString string
  | Str string
  | Integer int
  | Decimal string
  | Array "obj list"
  | Dictionary "(string \<times> obj) list"
  | Operator string "obj list"
  | InlineImage "(string \<times> obj) list" "byte list"
  | Foreign

text \<open>Python's \<open>str\<close> of an integer and \<open>" ".join\<close>.\<close>

function str_nat :: "nat \<Rightarrow> string" where
  "str_nat n =
     (if n < 10 then [char_of (48 + n)]
      else str_nat (n div 10) @ [char_of (48 + n mod 10)])"
  by pat_completeness auto
termination
  by (relation "measure (\<lambda>n. n)") auto

declare str_nat.simps [simp del]

definition str_int :: "int \<Rightarrow> string" where
  "str_int i = (if i < 0 then CHR ''-'' # str_nat (nat (- i)) else str_nat (nat i))"

fun join_space :: "string list \<Rightarrow> string" where
  "join_space [] = []"
| "join_space [s] = s"
| "join_space (s # t # ss) = s @ '' '' @ join_space (t # ss)"

text \<open>
  A list comprehension whose element expression may raise: the first exception, in list
  order, is the outcome.
\<close>

fun comprehension :: "(error + 'a) list \<Rightarrow> error + 'a list" where
  "comprehension [] = Inr []"
| "comprehension (x # xs) =
     (case x of
        Inl e \<Rightarrow> Inl e
      | Inr a \<Rightarrow> (case comprehension xs of Inl e \<Rightarrow> Inl e | Inr as \<Rightarrow> Inr (a # as)))"

subsection \<open>\<open>object_to_string\<close>\<close>

text \<open>
  The branches are tried in the order of the source's \<open>isinstance\<close> chain.
  \<open>b85encode\<close> is the standard library's and is a parameter.
\<close>

fun object_to_string :: "(byte list \<Rightarrow> string) \<Rightarrow> obj \<Rightarrow> error + string" where
  "object_to_string b85encode Null = Inr ''null''"
| "object_to_string b85encode (Boolean b) = Inr (if b then ''true'' else ''false'')"
| "object_to_string b85encode (Name n) = Inr (''/'' @ n)"
| "object_to_string b85encode (String s) = Inr s"
| "object_to_string b85encode (HexString s) = Inr s"
| "object_to_string b85encode (Str s) = Inr s"
| "object_to_string b85encode (Integer i) = Inr (str_int i)"
| "object_to_string b85encode (Decimal t) = Inr t"
| "object_to_string b85encode (Array elms) =
     (case comprehension (map (object_to_string b85encode) elms) of
        Inl e \<Rightarrow> Inl e
      | Inr vals \<Rightarrow> Inr (''['' @ join_space vals @ '']''))"
| "object_to_string b85encode (Dictionary items) =
     (case comprehension
             (map (\<lambda>kv. map_sum id (\<lambda>val. ''/'' @ fst kv @ '' '' @ val)
                          (object_to_string b85encode (snd kv))) items) of
        Inl e \<Rightarrow> Inl e
      | Inr vals \<Rightarrow> Inr (''<<'' @ join_space vals @ ''>>''))"
| "object_to_string b85encode (Operator nm operands) =
     (case comprehension (map (object_to_string b85encode) operands) of
        Inl e \<Rightarrow> Inl e
      | Inr vals \<Rightarrow> Inr ([CHR 0x0A] @ join_space vals @ '' '' @ nm))"
| "object_to_string b85encode (InlineImage dictionary filtered) =
     (case comprehension
             (map (\<lambda>kv. map_sum id (\<lambda>val. ''/'' @ fst kv @ '' '' @ val)
                          (object_to_string b85encode (snd kv)))
                (filter (\<lambda>kv. fst kv \<notin> set [''F'', ''Filter'', ''DecodeParms'']) dictionary)) of
        Inl e \<Rightarrow> Inl e
      | Inr vals \<Rightarrow>
          (let entries = join_space vals @ '' /Filter /ASCII85Decode'';
               content = b85encode filtered @ ''~>''
           in Inr ([CHR 0x0A] @ ''BI'' @ [CHR 0x0A] @ entries @ [CHR 0x0A] @ ''ID''
                   @ [CHR 0x0A] @ content @ [CHR 0x0A] @ ''EI'')))"
| "object_to_string b85encode Foreign = Inl ValueError"

subsection \<open>State of a viewer built on \<open>TextOperatorsMixin\<close>\<close>

record operator =
  name :: string
  args :: "obj list"

text \<open>The fields of the canvas that the mixin's handlers write.\<close>

record canvas =
  text_content :: string
  strings :: "string list"
  inline_images :: "obj list"

text \<open>
  What one evaluation of the \<open>decoder\<close> property did: found the name in \<open>_decoders\<close>,
  called \<open>Decoder(...)\<close>, or took \<open>default_decoder\<close>.
\<close>

datatype lookup = Cached | Constructed | Substituted

text \<open>
  \<open>'f\<close> is the type of font descriptions and \<open>'d\<close> the type of string decoders.
  \<open>Font\<close> is \<open>gss.state.Font\<close> (\<open>None\<close> until a \<open>Tf\<close> is seen) and
  \<open>resources_Font\<close> is \<open>resources.Font\<close>. The last field is not an attribute of the
  class: it lists, in order, the font name and the outcome of every evaluation of the
  \<open>decoder\<close> property, so that evaluations and constructions can be counted.
\<close>

record ('f, 'd) viewer =
  bracket_commands_stack :: "operator list"
  decoders :: "string option \<rightharpoonup> 'd"
  canvas :: canvas
  Font :: "obj list option"
  resources_Font :: "string option \<rightharpoonup> 'f"
  decoder_log :: "(string option \<times> lookup) list"

text \<open>
  The collaborators from other modules, as parameters: the constructor and the two
  decoding methods of \<open>codecs.decoder.Decoder\<close>, \<open>default_decoder\<close>,
  \<open>utils.pdf_escape_string\<close>, the \<open>font_name\<close> property of the graphics state and
  \<open>base64.b85encode\<close>.
\<close>

record ('f, 'd) collaborators =
  codecs_Decoder :: "'f \<Rightarrow> 'd"
  default_decoder :: 'd
  codecs_decode_string :: "'d \<Rightarrow> obj \<Rightarrow> error + string"
  codecs_decode_hexstring :: "'d \<Rightarrow> obj \<Rightarrow> error + string"
  pdf_escape_string :: "string \<Rightarrow> string"
  font_name :: "obj list option \<Rightarrow> string option"
  b85encode :: "byte list \<Rightarrow> string"

text \<open>\<open>TextOperatorsMixin.__init__\<close>, with an empty canvas.\<close>

definition new_viewer :: "(string option \<rightharpoonup> 'f) \<Rightarrow> ('f, 'd) viewer" where
  "new_viewer res =
     \<lparr>bracket_commands_stack = [], decoders = Map.empty,
      canvas = \<lparr>text_content = [], strings = [], inline_images = []\<rparr>,
      Font = None, resources_Font = res, decoder_log = []\<rparr>"

definition mode :: "('f, 'd) viewer \<Rightarrow> string option" where
  "mode v =
     (if bracket_commands_stack v \<noteq> [] then Some (name (last (bracket_commands_stack v)))
      else None)"

definition decoder :: "('f, 'd) collaborators \<Rightarrow> ('f, 'd) viewer \<Rightarrow> 'd \<times> ('f, 'd) viewer" where
  "decoder ext v =
     (let nm = font_name ext (Font v)
      in case decoders v nm of
           Some obj \<Rightarrow> (obj, v\<lparr>decoder_log := decoder_log v @ [(nm, Cached)]\<rparr>)
         | None \<Rightarrow>
             (case resources_Font v nm of
                Some font \<Rightarrow>
                  (let obj = codecs_Decoder ext font
                   in (obj, v\<lparr>decoders := (decoders v)(nm \<mapsto> obj),
                              decoder_log := decoder_log v @ [(nm, Constructed)]\<rparr>))
              | None \<Rightarrow>
                  (let obj = default_decoder ext
                   in (obj, v\<lparr>decoders := (decoders v)(nm \<mapsto> obj),
                              decoder_log := decoder_log v @ [(nm, Substituted)]\<rparr>))))"

text \<open>
  A handler returns the exception it raised or the operator as it left it, and the viewer
  as it left it.
\<close>

definition decode_string ::
  "('f, 'd) collaborators \<Rightarrow> obj \<Rightarrow> ('f, 'd) viewer \<Rightarrow> (error + string) \<times> ('f, 'd) viewer" where
  "decode_string ext s v =
     (case decoder ext v of
        (dec, v') \<Rightarrow>
          (case s of
             HexString h \<Rightarrow> (codecs_decode_hexstring ext dec s, v')
           | _ \<Rightarrow> (codecs_decode_string ext dec s, v')))"

definition after_handler ::
  "('f, 'd) collaborators \<Rightarrow> obj \<Rightarrow> ('f, 'd) viewer \<Rightarrow> error option \<times> ('f, 'd) viewer" where
  "after_handler ext ob v =
     (case object_to_string (b85encode ext) ob of
        Inl e \<Rightarrow> (Some e, v)
      | Inr val \<Rightarrow>
          (None, v\<lparr>canvas := (canvas v)\<lparr>text_content := text_content (canvas v) @ val\<rparr>\<rparr>))"

definition on_inline_image :: "obj \<Rightarrow> ('f, 'd) viewer \<Rightarrow> ('f, 'd) viewer" where
  "on_inline_image ob v =
     v\<lparr>canvas := (canvas v)\<lparr>inline_images := inline_images (canvas v) @ [ob]\<rparr>\<rparr>"

definition on_BT ::
  "operator \<Rightarrow> ('f, 'd) viewer \<Rightarrow> (error + operator) \<times> ('f, 'd) viewer" where
  "on_BT op v =
     (if mode v = Some ''BT'' then (Inl ValueError, v)
      else (Inr op, v\<lparr>bracket_commands_stack := bracket_commands_stack v @ [op]\<rparr>))"

definition on_ET ::
  "operator \<Rightarrow> ('f, 'd) viewer \<Rightarrow> (error + operator) \<times> ('f, 'd) viewer" where
  "on_ET op v =
     (if mode v \<noteq> Some ''BT'' then (Inl ValueError, v)
      else (Inr op, v\<lparr>bracket_commands_stack := butlast (bracket_commands_stack v)\<rparr>))"

definition on_Tf ::
  "operator \<Rightarrow> ('f, 'd) viewer \<Rightarrow> (error + operator) \<times> ('f, 'd) viewer" where
  "on_Tf op v = (Inr op, v\<lparr>Font := Some (args op)\<rparr>)"

definition append_string :: "string \<Rightarrow> ('f, 'd) viewer \<Rightarrow> ('f, 'd) viewer" where
  "append_string s v = v\<lparr>canvas := (canvas v)\<lparr>strings := strings (canvas v) @ [s]\<rparr>\<rparr>"

definition escaped_literal :: "('f, 'd) collaborators \<Rightarrow> string \<Rightarrow> obj" where
  "escaped_literal ext s = Str (''('' @ pdf_escape_string ext s @ '')'')"

definition on_Tj ::
  "('f, 'd) collaborators \<Rightarrow> operator \<Rightarrow> ('f, 'd) viewer \<Rightarrow>
   (error + operator) \<times> ('f, 'd) viewer" where
  "on_Tj ext op v =
     (case args op of
        [] \<Rightarrow> (Inl IndexError, v)
      | a # rest \<Rightarrow>
          (case decode_string ext a v of
             (Inl e, v1) \<Rightarrow> (Inl e, v1)
           | (Inr s, v1) \<Rightarrow> (Inr (op\<lparr>args := [escaped_literal ext s]\<rparr>), append_string s v1)))"

definition on_apostrophe ::
  "('f, 'd) collaborators \<Rightarrow> operator \<Rightarrow> ('f, 'd) viewer \<Rightarrow>
   (error + operator) \<times> ('f, 'd) viewer" where
  "on_apostrophe = on_Tj"

text \<open>
  The \<open>for i in range(len(arr))\<close> loop of \<open>on_TJ\<close> over an array: the elements as the
  loop leaves them. An exception leaves the elements before it replaced.
\<close>

fun TJ_loop ::
  "('f, 'd) collaborators \<Rightarrow> obj list \<Rightarrow> ('f, 'd) viewer \<Rightarrow>
   (error + obj list) \<times> ('f, 'd) viewer" where
  "TJ_loop ext [] v = (Inr [], v)"
| "TJ_loop ext (x # xs) v =
     (if (case x of HexString h \<Rightarrow> True | String t \<Rightarrow> True | _ \<Rightarrow> False)
      then
        (case decode_string ext x v of
           (Inl e, v1) \<Rightarrow> (Inl e, v1)
         | (Inr s, v1) \<Rightarrow>
             (case TJ_loop ext xs (append_string s v1) of
                (Inl e, v2) \<Rightarrow> (Inl e, v2)
              | (Inr ys, v2) \<Rightarrow> (Inr (escaped_literal ext s # ys), v2)))
      else
        (case TJ_loop ext xs v of
           (Inl e, v2) \<Rightarrow> (Inl e, v2)
         | (Inr ys, v2) \<Rightarrow> (Inr (x # ys), v2)))"

text \<open>
  \<open>on_TJ\<close> reads \<open>arr = op.args[0]\<close> and indexes it up to \<open>len(arr)\<close>. An array is
  rewritten in place. A string has a length and its items are plain one-character
  strings, so nothing is decoded. A dictionary has a length and no integer key, so the
  first index is a \<open>KeyError\<close> unless it is empty. The other operands are taken to have no
  \<open>len\<close>, a \<open>TypeError\<close>.
\<close>

definition on_TJ ::
  "('f, 'd) collaborators \<Rightarrow> operator \<Rightarrow> ('f, 'd) viewer \<Rightarrow>
   (error + operator) \<times> ('f, 'd) viewer" where
  "on_TJ ext op v =
     (case args op of
        [] \<Rightarrow> (Inl IndexError, v)
      | arr # rest \<Rightarrow>
          (case arr of
             Array elms \<Rightarrow>
               (case TJ_loop ext elms v of
                  (Inl e, v1) \<Rightarrow> (Inl e, v1)
                | (Inr elms', v1) \<Rightarrow> (Inr (op\<lparr>args := Array elms' # rest\<rparr>), v1))
           | Name s \<Rightarrow> (Inr op, v)
           | String s \<Rightarrow> (Inr op, v)
           | HexString s \<Rightarrow> (Inr op, v)
           | Str s \<Rightarrow> (Inr op, v)
           | Dictionary items \<Rightarrow> (if items = [] then (Inr op, v) else (Inl KeyError, v))
           | _ \<Rightarrow> (Inl TypeError, v)))"

definition on_quotation ::
  "('f, 'd) collaborators \<Rightarrow> operator \<Rightarrow> ('f, 'd) viewer \<Rightarrow>
   (error + operator) \<times> ('f, 'd) viewer" where
  "on_quotation = on_TJ"

definition on_Tstar ::
  "operator \<Rightarrow> ('f, 'd) viewer \<Rightarrow> (error + operator) \<times> ('f, 'd) viewer" where
  "on_Tstar op v = (Inr op, v)"

subsection \<open>Dispatch\<close>

definition operators_aliases :: "string \<rightharpoonup> string" where
  "operators_aliases =
     [[CHR 0x27] \<mapsto> ''apostrophe'', [CHR 0x22] \<mapsto> ''quotation'', ''T*'' \<mapsto> ''Tstar'']"

text \<open>
  Modelled from the spec: the dispatch of \<open>PDFViewer\<close> (module \<open>viewer.pdfviewer\<close>,
  which calls the handlers and \<open>after_handler\<close>). Each operator name, after
  \<open>operators_aliases\<close>, is routed to the handler \<open>on_<name>\<close>; an operator with no
  handler falls through and is still recorded in the reconstructed text; an inline image
  goes to \<open>on_inline_image\<close>; an exception ends the run. Only the handlers of
  \<open>TextOperatorsMixin\<close> are in the table.
\<close>

definition handler ::
  "string \<Rightarrow>
   (('f, 'd) collaborators \<Rightarrow> operator \<Rightarrow> ('f, 'd) viewer \<Rightarrow>
    (error + operator) \<times> ('f, 'd) viewer) option" where
  "handler nm =
     (let attr = (case operators_aliases nm of Some a \<Rightarrow> a | None \<Rightarrow> nm)
      in if attr = ''BT'' then Some (\<lambda>ext. on_BT)
         else if attr = ''ET'' then Some (\<lambda>ext. on_ET)
         else if attr = ''Tf'' then Some (\<lambda>ext. on_Tf)
         else if attr = ''Tj'' then Some on_Tj
         else if attr = ''apostrophe'' then Some on_apostrophe
         else if attr = ''TJ'' then Some on_TJ
         else if attr = ''quotation'' then Some on_quotation
         else if attr = ''Tstar'' then Some (\<lambda>ext. on_Tstar)
         else None)"

text \<open>The call of the handler alone, before \<open>after_handler\<close>.\<close>

definition handle ::
  "('f, 'd) collaborators \<Rightarrow> operator \<Rightarrow> ('f, 'd) viewer \<Rightarrow>
   (error + operator) \<times> ('f, 'd) viewer" where
  "handle ext op v =
     (case handler (name op) of
        None \<Rightarrow> (Inr op, v)
      | Some h \<Rightarrow> h ext op v)"

definition notify ::
  "('f, 'd) collaborators \<Rightarrow> obj \<Rightarrow> ('f, 'd) viewer \<Rightarrow> error option \<times> ('f, 'd) viewer" where
  "notify ext ob v =
     (case ob of
        InlineImage dictionary filtered \<Rightarrow> after_handler ext ob (on_inline_image ob v)
      | Operator nm operands \<Rightarrow>
          (case handle ext \<lparr>name = nm, args = operands\<rparr> v of
             (Inl e, v1) \<Rightarrow> (Some e, v1)
           | (Inr op1, v1) \<Rightarrow> after_handler ext (Operator (name op1) (args op1)) v1)
      | _ \<Rightarrow> after_handler ext ob v)"

fun render ::
  "('f, 'd) collaborators \<Rightarrow> obj list \<Rightarrow> ('f, 'd) viewer \<Rightarrow> error option \<times> ('f, 'd) viewer" where
  "render ext [] v = (None, v)"
| "render ext (ob # obs) v =
     (case notify ext ob v of
        (Some e, v1) \<Rightarrow> (Some e, v1)
      | (None, v1) \<Rightarrow> render ext obs v1)"

section \<open>Notions used in the statements\<close>

text \<open>The codebook that \<open>_clear_codes\<close> builds, written out as a list.\<close>

definition initial_codebook :: "(int \<times> codeval) list" where
  "initial_codebook =
     map (\<lambda>pt. (int pt, Bytes [of_nat pt])) [0..<256]
     @ [(CLEAR_CODE, Code CLEAR_CODE), (END_OF_INFO_CODE, Code END_OF_INFO_CODE)]"

text \<open>
  The number of codepoints at the end of a sequence that follow its last control
  codepoint (all of them when there is none).
\<close>

definition since_reset :: "int list \<Rightarrow> nat" where
  "since_reset cps =
     length (takeWhile (\<lambda>cp. cp \<notin> set [CLEAR_CODE, END_OF_INFO_CODE]) (rev cps))"

text \<open>
  The value of the unpacker's \<open>codesize\<close> after it has yielded the codepoints \<open>cps\<close>,
  having started them at \<open>c\<close> with initial code size \<open>i\<close>.
\<close>

fun codesize_after :: "nat \<Rightarrow> nat \<Rightarrow> int list \<Rightarrow> nat" where
  "codesize_after i c [] = c"
| "codesize_after i c (cp # cps) =
     codesize_after i (if cp \<in> set [CLEAR_CODE, END_OF_INFO_CODE] then i else c + 1) cps"

text \<open>
  The widths at which an unpacker with code size \<open>c\<close> and width \<open>w\<close> reads \<open>n\<close> zero
  bits.
\<close>

function zero_run :: "nat \<Rightarrow> nat \<Rightarrow> nat \<Rightarrow> nat list" where
  "zero_run c w n =
     (if w = 0 \<or> n < w then []
      else w # zero_run (c + 1) (grow_width (c + 1) w) (n - w))"
  by pat_completeness auto
termination
  by (relation "measure (\<lambda>(c, w, n). n)") auto

declare zero_run.simps [simp del]

text \<open>
  A value is recognized when the serializer has a branch for it and for every value it
  serializes inside it. An inline image's \<open>F\<close>, \<open>Filter\<close> and \<open>DecodeParms\<close> entries
  are not serialized.
\<close>

fun recognized :: "obj \<Rightarrow> bool" where
  "recognized (Array elms) = list_all recognized elms"
| "recognized (Dictionary items) = list_all recognized (map snd items)"
| "recognized (Operator nm operands) = list_all recognized operands"
| "recognized (InlineImage dictionary filtered) =
     list_all recognized
       (map snd (filter (\<lambda>kv. fst kv \<notin> set [''F'', ''Filter'', ''DecodeParms'']) dictionary))"
| "recognized Foreign = False"
| "recognized ob = True"

text \<open>The text of a value that serializes, and the empty text otherwise.\<close>

definition serialized :: "(byte list \<Rightarrow> string) \<Rightarrow> obj \<Rightarrow> string" where
  "serialized enc ob = (case object_to_string enc ob of Inl e \<Rightarrow> [] | Inr val \<Rightarrow> val)"

text \<open>
  From the log of the \<open>decoder\<close> property: the evaluations that stored a decoder, and
  the font names the property was evaluated for.
\<close>

definition constructions :: "('f, 'd) viewer \<Rightarrow> (string option \<times> lookup) list" where
  "constructions v = filter (\<lambda>entry. snd entry \<noteq> Cached) (decoder_log v)"

definition names_used :: "('f, 'd) viewer \<Rightarrow> string option set" where
  "names_used v = fst ` set (decoder_log v)"

text \<open>A stack whose top is a text-object bracket.\<close>

definition inside_text :: "('f, 'd) viewer \<Rightarrow> bool" where
  "inside_text v =
     (bracket_commands_stack v \<noteq> [] \<and> name (last (bracket_commands_stack v)) = ''BT'')"

section \<open>Properties of the LZW filter\<close>

subsection \<open>Bits and codepoints\<close>

lemma upt_1_9: "rev [1..<9] = [8, 7, 6, 5, 4, 3, 2, Suc 0]"
  by (simp add: upt_rec)

lemma bits_of_byte_bit:
  "bits_of_byte v = [bit v 7, bit v 6, bit v 5, bit v 4, bit v 3, bit v 2, bit v 1, bit v 0]"
  unfolding bits_of_byte_def upt_1_9
  by (simp add: bit_word_iff_drop_bit_and and.commute)

lemma or_exp_add:
  fixes r :: int
  assumes "0 \<le> r" "r < 2 ^ n"
  shows "r OR 2 ^ n = r + 2 ^ n"
proof -
  from assms have t: "take_bit n r = r"
    by (simp add: take_bit_int_eq_self)
  have "take_bit n r AND 2 ^ n = 0"
    by (rule bit_eqI) (simp add: bit_simps)
  with t have "r AND 2 ^ n = 0"
    by simp
  then show ?thesis
    by (simp add: disjunctive_add_eq_or)
qed

lemma lsb_fold_snoc:
  "fold (\<lambda>i ret. if (xs @ [x]) ! i then ret OR push_bit i (1::int) else ret) [0..<length (xs @ [x])] 0
   = (let r = fold (\<lambda>i ret. if xs ! i then ret OR push_bit i 1 else ret) [0..<length xs] 0
      in if x then r OR push_bit (length xs) 1 else r)"
proof -
  have "fold (\<lambda>i ret. if (xs @ [x]) ! i then ret OR push_bit i (1::int) else ret) [0..<length xs] 0
      = fold (\<lambda>i ret. if xs ! i then ret OR push_bit i 1 else ret) [0..<length xs] 0"
    by (rule fold_cong) (auto simp: nth_append)
  then show ?thesis
    by (cases x) (simp_all add: Let_def)
qed

lemma lsb_fold_bounds:
  "0 \<le> fold (\<lambda>i ret. if xs ! i then ret OR push_bit i (1::int) else ret) [0..<length xs] 0 \<and>
   fold (\<lambda>i ret. if xs ! i then ret OR push_bit i (1::int) else ret) [0..<length xs] 0 < 2 ^ length xs"
proof (induction xs rule: rev_induct)
  case Nil
  show ?case by simp
next
  case (snoc x xs)
  let ?r = "fold (\<lambda>i ret. if xs ! i then ret OR push_bit i (1::int) else ret) [0..<length xs] 0"
  from snoc have r: "0 \<le> ?r" "?r < 2 ^ length xs" by simp_all
  have "?r OR 2 ^ length xs = ?r + 2 ^ length xs"
    using r by (rule or_exp_add)
  with r show ?case
    unfolding lsb_fold_snoc by (simp add: Let_def push_bit_eq_mult)
qed

lemma intfrombits_Nil: "intfrombits [] = 0"
  by (simp add: intfrombits_def)

lemma intfrombits_Cons:
  "intfrombits (b # bs) = (if b then 2 ^ length bs else 0) + intfrombits bs"
proof -
  let ?r = "fold (\<lambda>i ret. if rev bs ! i then ret OR push_bit i (1::int) else ret) [0..<length (rev bs)] 0"
  have r: "0 \<le> ?r" "?r < 2 ^ length (rev bs)"
    using lsb_fold_bounds [of "rev bs"] by simp_all
  then have "?r OR 2 ^ length (rev bs) = ?r + 2 ^ length (rev bs)"
    by (rule or_exp_add)
  moreover have "intfrombits (b # bs) = (if b then ?r OR push_bit (length (rev bs)) 1 else ?r)"
    unfolding intfrombits_def Let_def rev.simps lsb_fold_snoc ..
  moreover have "intfrombits bs = ?r"
    by (simp add: intfrombits_def)
  ultimately show ?thesis
    by (simp add: push_bit_eq_mult)
qed

lemma intfrombits_bounds: "0 \<le> intfrombits bs \<and> intfrombits bs < 2 ^ length bs"
  using lsb_fold_bounds [of "rev bs"] by (simp add: intfrombits_def)

lemma intfrombits_append:
  "intfrombits (bs @ cs) = intfrombits bs * 2 ^ length cs + intfrombits cs"
  by (induction bs) (simp_all add: intfrombits_Nil intfrombits_Cons power_add algebra_simps)

lemma intfrombits_replicate_False: "intfrombits (replicate n False) = 0"
  by (induction n) (simp_all add: intfrombits_Nil intfrombits_Cons)

subsection \<open>Running the unpacker on explicit bits\<close>

lemma unpack_loop_step:
  "unpack_loop I M \<lparr>bits = bs, offset = off, ignore = ig, codesize = c, pointwidth = w\<rparr> (b # rest) =
     (if ig > 0
      then unpack_loop I M
             \<lparr>bits = bs, offset = (off + 1) mod 8, ignore = ig - 1, codesize = c, pointwidth = w\<rparr> rest
      else if Suc (length bs) = w
      then
        (if intfrombits (bs @ [b]) = CLEAR_CODE
         then (CLEAR_CODE, w) # unpack_loop I M
                \<lparr>bits = [], offset = (off + 1) mod 8, ignore = 0, codesize = I, pointwidth = M\<rparr> rest
         else if intfrombits (bs @ [b]) = END_OF_INFO_CODE
         then (END_OF_INFO_CODE, w) # unpack_loop I M
                \<lparr>bits = [], offset = (off + 1) mod 8, ignore = (8 - (off + 1) mod 8) mod 8,
                 codesize = I, pointwidth = M\<rparr> rest
         else (intfrombits (bs @ [b]), w) # unpack_loop I M
                \<lparr>bits = [], offset = (off + 1) mod 8, ignore = 0, codesize = c + 1,
                 pointwidth = grow_width (c + 1) w\<rparr> rest)
      else unpack_loop I M
             \<lparr>bits = bs @ [b], offset = (off + 1) mod 8, ignore = 0, codesize = c, pointwidth = w\<rparr> rest)"
  by (simp add: unpack_bit_def Let_def CLEAR_CODE_def END_OF_INFO_CODE_def)

lemmas unpack_eval = unpack_def unpack_events_def bytestobits_def bits_of_byte_bit unpack_loop_step
  intfrombits_Nil intfrombits_Cons grow_width.simps minwidth_loop.simps CLEAR_CODE_def END_OF_INFO_CODE_def

subsection \<open>The codebook\<close>

lemma update_fresh: "k \<notin> fst ` set al \<Longrightarrow> AList.update k v al = al @ [(k, v)]"
  by (induction al) auto

lemma update_unmapped: "map_of al k = None \<Longrightarrow> AList.update k v al = al @ [(k, v)]"
  by (rule update_fresh) (simp add: map_of_eq_None_iff)

lemma codepoints_clear_codes: "codepoints (clear_codes d) = initial_codebook"
proof -
  let ?base = "map (\<lambda>pt. (int pt, Bytes [of_nat pt])) [0..<256]"
  have a: "CLEAR_CODE \<notin> fst ` set ?base"
    by (auto simp: CLEAR_CODE_def)
  have b: "END_OF_INFO_CODE \<notin> fst ` set (?base @ [(CLEAR_CODE, Code CLEAR_CODE)])"
    by (auto simp: CLEAR_CODE_def END_OF_INFO_CODE_def)
  show ?thesis
    unfolding clear_codes_def initial_codebook_def
    by (simp add: update_fresh [OF a] update_fresh [OF b])
qed

lemma length_initial_codebook: "length initial_codebook = 258"
  by (simp add: initial_codebook_def)

lemma map_of_initial_codebook:
  "map_of initial_codebook k =
     (if 0 \<le> k \<and> k < 256 then Some (Bytes [of_int k])
      else if k = CLEAR_CODE then Some (Code CLEAR_CODE)
      else if k = END_OF_INFO_CODE then Some (Code END_OF_INFO_CODE)
      else None)"
proof -
  let ?f = "\<lambda>pt. (int pt, Bytes [of_nat pt])"
  have base: "map_of (map ?f [0..<n]) k =
      (if 0 \<le> k \<and> k < int n then Some (Bytes [of_int k]) else None)" for n
    by (induction n) (auto simp: map_add_def split: option.splits)
  show ?thesis
    unfolding initial_codebook_def
    by (auto simp: base [of 256] map_add_def CLEAR_CODE_def END_OF_INFO_CODE_def
        split: option.splits)
qed

lemma map_of_snoc:
  "map_of (al @ [(k, v)]) x =
     (case map_of al x of Some y \<Rightarrow> Some y | None \<Rightarrow> if x = k then Some v else None)"
  by (simp add: map_add_def split: option.splits)

lemma prefix_clear_codes: "prefix (clear_codes d) = None"
  by (simp add: clear_codes_def)

lemma new_Decoder_eq: "new_Decoder = \<lparr>codepoints = initial_codebook, prefix = None\<rparr>"
  using codepoints_clear_codes [of "\<lparr>codepoints = [], prefix = None\<rparr>"]
    prefix_clear_codes [of "\<lparr>codepoints = [], prefix = None\<rparr>"]
  by (simp add: new_Decoder_def)

lemma clear_codes_eq: "clear_codes d = \<lparr>codepoints = initial_codebook, prefix = None\<rparr>"
  using codepoints_clear_codes [of d] prefix_clear_codes [of d]
  by (cases "clear_codes d") simp

lemmas book_simps = new_Decoder_eq clear_codes_eq length_initial_codebook map_of_initial_codebook
  map_add_def update_unmapped decode_codepoint_def Decoder_decode_def CLEAR_CODE_def END_OF_INFO_CODE_def

subsection \<open>The literal vectors\<close>

lemma unpack_sample_text:
  "unpack 258 [0x39, 0x98, 0x4D, 0xA7, 0x03, 0x61, 0x94, 0x40, 0x74, 0x32, 0x9E, 0x0E, 0x90, 0x00]
     = [115, 97, 109, 112, 108, 101, 32, 116, 101, 120, 116, 256]"
  by (simp add: unpack_eval del: unpack_loop.simps(2))

lemma unpack_one_then_eoi: "unpack 258 [0x00, 0xC0, 0x40] = [1, 257]"
  by (simp add: unpack_eval del: unpack_loop.simps(2))

lemma unpack_first_code_258: "unpack 258 [0x81, 0x00] = [258]"
  by (simp add: unpack_eval del: unpack_loop.simps(2))

lemma code_size_new_Decoder: "code_size new_Decoder = 258"
  by (simp add: code_size_def new_Decoder_eq length_initial_codebook)

text \<open>
  C3. Decompressing the bytes 39 98 4D A7 03 61 94 40 74 32 9E 0E 90 00 yields exactly
  the bytes of the text \<open>sample text\<close>.
\<close>

theorem decompress_sample_text:
  "decompress [0x39, 0x98, 0x4D, 0xA7, 0x03, 0x61, 0x94, 0x40, 0x74, 0x32, 0x9E, 0x0E, 0x90, 0x00]
     = Inr (map of_char ''sample text'')"
  unfolding decompress_def decodefrombytes_def Let_def code_size_new_Decoder unpack_sample_text
  by (simp add: book_simps)

text \<open>
  C4. Decoding the codepoints 103 97 98 98 97 32 258 260 262 121 111 263 259 261 256 with
  a fresh \<open>Decoder\<close> yields exactly the bytes of the text \<open>gabba gabba yo gabba\<close>.
\<close>

theorem decode_gabba:
  "map_sum id fst
     (Decoder_decode [103, 97, 98, 98, 97, 32, 258, 260, 262, 121, 111, 263, 259, 261, 256]
        new_Decoder)
     = Inr (map of_char ''gabba gabba yo gabba'')"
  by (simp add: book_simps)

subsection \<open>END-OF-INFO in the composed pipeline\<close>

lemma decode_loop_eoi:
  "END_OF_INFO_CODE \<in> set cps \<Longrightarrow> \<exists>e. decode_loop cps decoded d = Inl e"
proof (induction cps arbitrary: decoded d)
  case Nil
  then show ?case by simp
next
  case (Cons cp cps)
  show ?case
  proof (cases "decode_codepoint cp d")
    case (Inl e)
    then show ?thesis by simp
  next
    case (Inr r)
    then have "cp \<noteq> END_OF_INFO_CODE"
      by (auto simp: decode_codepoint_def CLEAR_CODE_def END_OF_INFO_CODE_def)
    with Cons.prems have "END_OF_INFO_CODE \<in> set cps"
      by auto
    from Cons.IH [OF this] Inr show ?thesis
      by (cases r) simp
  qed
qed

lemma decompress_eoi:
  "END_OF_INFO_CODE \<in> set (unpack 258 bytesource) \<Longrightarrow> \<exists>e. decompress bytesource = Inl e"
  using decode_loop_eoi [of "unpack 258 bytesource" "[]" new_Decoder]
  by (auto simp: decompress_def decodefrombytes_def code_size_new_Decoder Decoder_decode_def)

text \<open>
  C1. The claim is that END-OF-INFO codepoints of the unpacker never reach the decoder, so
  that a stream whose codepoints contain END-OF-INFO decodes normally. The bytes 00 C0 40
  unpack to the codepoints 1 and END-OF-INFO; \<open>decodefrombytes\<close> hands both to the
  decoder, and decompression ends in the decoder's \<open>ValueError\<close>.
\<close>

theorem decompress_passes_eoi_to_decoder:
  "unpack 258 [0x00, 0xC0, 0x40] = [1, END_OF_INFO_CODE] \<and>
   decompress [0x00, 0xC0, 0x40] = Inl ValueError"
  unfolding decompress_def decodefrombytes_def Let_def code_size_new_Decoder unpack_one_then_eoi
  by (simp add: book_simps)

subsection \<open>The filter entry point\<close>

lemma decompress_first_code_258: "decompress [0x81, 0x00] = Inl TypeError"
  unfolding decompress_def decodefrombytes_def Let_def code_size_new_Decoder unpack_first_code_258
  by (simp add: book_simps)

text \<open>
  C2. The claim is that \<open>decode\<close> returns normally for every input. The bytes 81 00
  hold the single codepoint 258, which a fresh decoder does not know; the decoder adds
  \<open>None\<close> to a byte string, and the \<open>TypeError\<close> passes the \<open>except ValueError\<close>
  of \<open>decode\<close>, whatever the predictor step and the parameters are.
\<close>

theorem decode_propagates_TypeError:
  "decode remove_predictors [0x81, 0x00] params = Inl TypeError"
  by (simp add: decode_def decompress_first_code_258)

end
